theory Spec2Isabelle
  imports Complex_Main "HOL-Library.Word"
begin

unbundle bit_operations_syntax

section \<open>Numbers\<close>

text \<open>
  The TypeScript sources compute on \<open>number\<close>.  The embedding reads every \<open>number\<close> as a
  real and every arithmetic operator as the exact operation, so comparisons, \<open>Math.max\<close>,
  \<open>Math.min\<close>, \<open>Math.abs\<close> and \<open>Math.round\<close> are the mathematical ones.  Rounding of
  IEEE doubles, infinities and NaN are outside the model.
\<close>

text \<open>\<open>clamp\<close> of \<open>CubeMode.ts\<close>, \<open>BallMode.ts\<close>, \<open>ShipMode.ts\<close> and \<open>utils/math.ts\<close>:
  \<open>Math.max(min, Math.min(max, value))\<close>.\<close>

definition clamp :: "real \<Rightarrow> real \<Rightarrow> real \<Rightarrow> real" where
  "clamp v lo hi = max lo (min hi v)"

text \<open>\<open>Math.round\<close>: the nearest integer, halves rounded towards plus infinity.\<close>

definition Math_round :: "real \<Rightarrow> real" where
  "Math_round v = of_int \<lfloor>v + 1 / 2\<rfloor>"

text \<open>\<open>Math.trunc\<close>, and the remainder operator \<open>%\<close>, whose result takes the sign of
  the dividend: \<open>a % b = a - b * trunc (a / b)\<close>.  The sources only divide by 360.\<close>

definition Math_trunc :: "real \<Rightarrow> int" where
  "Math_trunc v = (if 0 \<le> v then \<lfloor>v\<rfloor> else \<lceil>v\<rceil>)"

definition js_rem :: "real \<Rightarrow> real \<Rightarrow> real" where
  "js_rem a b = a - b * of_int (Math_trunc (a / b))"

text \<open>\<open>Math.PI\<close> is the double nearest to \<open>\<pi>\<close>, the rational \<open>884279719003555 / 2^48\<close>.\<close>

definition Math_PI :: real where
  "Math_PI = 884279719003555 / 281474976710656"

section \<open>Axis-aligned bounding boxes (\<open>core/collision/AABB.ts\<close>)\<close>

record Vector2 =
  vec_x :: real
  vec_y :: real

record AABB =
  box_x :: real
  box_y :: real
  box_width :: real
  box_height :: real

record CollisionResult =
  colliding :: bool
  overlapX :: real
  overlapY :: real
  normal :: Vector2

definition checkAABBOverlap :: "AABB \<Rightarrow> AABB \<Rightarrow> bool" where
  "checkAABBOverlap a b \<longleftrightarrow>
     box_x a < box_x b + box_width b \<and> box_x a + box_width a > box_x b \<and>
     box_y a < box_y b + box_height b \<and> box_y a + box_height a > box_y b"

definition getAABBCollision :: "AABB \<Rightarrow> AABB \<Rightarrow> CollisionResult" where
  "getAABBCollision a b =
     (let aCenterX = box_x a + box_width a / 2;
          aCenterY = box_y a + box_height a / 2;
          bCenterX = box_x b + box_width b / 2;
          bCenterY = box_y b + box_height b / 2;
          aHalfWidth = box_width a / 2;
          aHalfHeight = box_height a / 2;
          bHalfWidth = box_width b / 2;
          bHalfHeight = box_height b / 2;
          dx = aCenterX - bCenterX;
          dy = aCenterY - bCenterY;
          ovX = aHalfWidth + bHalfWidth - \<bar>dx\<bar>;
          ovY = aHalfHeight + bHalfHeight - \<bar>dy\<bar>
      in if ovX \<le> 0 \<or> ovY \<le> 0
         then \<lparr>colliding = False, overlapX = 0, overlapY = 0,
               normal = \<lparr>vec_x = 0, vec_y = 0\<rparr>\<rparr>
         else if ovX < ovY
         then (let normalX = (if dx > 0 then 1 else - 1)
               in \<lparr>colliding = True, overlapX = ovX * normalX, overlapY = 0,
                    normal = \<lparr>vec_x = normalX, vec_y = 0\<rparr>\<rparr>)
         else (let normalY = (if dy > 0 then 1 else - 1)
               in \<lparr>colliding = True, overlapX = 0, overlapY = ovY * normalY,
                    normal = \<lparr>vec_x = 0, vec_y = normalY\<rparr>\<rparr>))"

definition pointInAABB :: "Vector2 \<Rightarrow> AABB \<Rightarrow> bool" where
  "pointInAABB point box \<longleftrightarrow>
     vec_x point \<ge> box_x box \<and> vec_x point \<le> box_x box + box_width box \<and>
     vec_y point \<ge> box_y box \<and> vec_y point \<le> box_y box + box_height box"

definition createAABBFromCenter :: "real \<Rightarrow> real \<Rightarrow> real \<Rightarrow> real \<Rightarrow> AABB" where
  "createAABBFromCenter centerX centerY w h =
     \<lparr>box_x = centerX - w / 2, box_y = centerY - h / 2, box_width = w, box_height = h\<rparr>"


definition expandAABB :: "AABB \<Rightarrow> real \<Rightarrow> AABB" where
  "expandAABB box margin =
     \<lparr>box_x = box_x box - margin, box_y = box_y box - margin,
      box_width = box_width box + margin * 2, box_height = box_height box + margin * 2\<rparr>"

definition scaleAABB :: "AABB \<Rightarrow> real \<Rightarrow> AABB" where
  "scaleAABB box scale =
     (let centerX = box_x box + box_width box / 2;
          centerY = box_y box + box_height box / 2;
          newWidth = box_width box * scale;
          newHeight = box_height box * scale
      in \<lparr>box_x = centerX - newWidth / 2, box_y = centerY - newHeight / 2,
           box_width = newWidth, box_height = newHeight\<rparr>)"



section \<open>Physics types and constants (\<open>core/physics/types.ts\<close>, \<open>constants.ts\<close>)\<close>

datatype PlayerModeType = Cube | Ship | Ball

datatype SpeedModeType = Slow | Normal | Fast | Faster | SuperFast

datatype ObjectTypeType =
    block | spike | spikeInverted | padYellow | padPink | orbYellow | orbBlue
  | portalGravity | portalMode | portalSpeed | checkpoint | decoration

record InputState =
  jumpPressed :: bool
  jumpHeld :: bool
  pausePressed :: bool

record PhysicsState =
  position :: Vector2
  velocity :: Vector2
  isGrounded :: bool
  gravityInverted :: bool
  rotation :: real
  angularVelocity :: real
  coyoteTimeRemaining :: real
  jumpBuffered :: bool
  jumpBufferTimeRemaining :: real
  isDead :: bool
  mode :: PlayerModeType
  speed :: SpeedModeType

record PhysicsConfig =
  gravity :: real
  jumpForce :: real
  terminalVelocity :: real
  coyoteTime :: real
  jumpBuffer :: real

text \<open>\<open>createDefaultPhysicsState\<close>, \<open>createDefaultPhysicsConfig\<close> and
  \<open>createDefaultInputState\<close> without overrides; an override is a record update of the
  result.\<close>

definition createDefaultPhysicsState :: PhysicsState where
  "createDefaultPhysicsState =
     \<lparr>position = \<lparr>vec_x = 0, vec_y = 0\<rparr>, velocity = \<lparr>vec_x = 0, vec_y = 0\<rparr>,
      isGrounded = False, gravityInverted = False, rotation = 0, angularVelocity = 0,
      coyoteTimeRemaining = 0, jumpBuffered = False, jumpBufferTimeRemaining = 0,
      isDead = False, mode = Cube, speed = Normal\<rparr>"

definition createDefaultPhysicsConfig :: PhysicsConfig where
  "createDefaultPhysicsConfig =
     \<lparr>gravity = 2600, jumpForce = 800, terminalVelocity = 1200,
      coyoteTime = 8 / 100, jumpBuffer = 1 / 10\<rparr>"

definition createDefaultInputState :: InputState where
  "createDefaultInputState = \<lparr>jumpPressed = False, jumpHeld = False, pausePressed = False\<rparr>"

text \<open>The constant tables \<open>PHYSICS\<close>, \<open>SPEEDS\<close>, \<open>GRID\<close>, \<open>HITBOXES\<close>, \<open>SIZES\<close> and
  \<open>CollisionLayer\<close>, one constant for each entry that the modelled code reads.\<close>

definition PHYSICS_SHIP_GRAVITY_MULTIPLIER :: real where
  "PHYSICS_SHIP_GRAVITY_MULTIPLIER = 4 / 10"

definition PHYSICS_SHIP_THRUST_FORCE :: real where
  "PHYSICS_SHIP_THRUST_FORCE = 600"

definition PHYSICS_CUBE_ROTATION_SPEED :: real where
  "PHYSICS_CUBE_ROTATION_SPEED = 360"

fun SPEEDS :: "SpeedModeType \<Rightarrow> real" where
  "SPEEDS Slow = 25116 / 100"
| "SPEEDS Normal = 31158 / 100"
| "SPEEDS Fast = 38742 / 100"
| "SPEEDS Faster = 468"
| "SPEEDS SuperFast = 576"

definition GRID_UNIT_SIZE :: real where
  "GRID_UNIT_SIZE = 40"

definition GRID_DEFAULT_GROUND_Y :: real where
  "GRID_DEFAULT_GROUND_Y = 12"

definition HITBOXES_PLAYER_CUBE :: real where
  "HITBOXES_PLAYER_CUBE = 9 / 10"

definition HITBOXES_PLAYER_SHIP :: real where
  "HITBOXES_PLAYER_SHIP = 85 / 100"

definition HITBOXES_SPIKE :: real where
  "HITBOXES_SPIKE = 5 / 10"

definition HITBOXES_ORB :: real where
  "HITBOXES_ORB = 75 / 100"

definition HITBOXES_BLOCK :: real where
  "HITBOXES_BLOCK = 1"

definition SIZES_PLAYER :: real where
  "SIZES_PLAYER = 40"

text \<open>The collision layers are bit flags, \<open>1 << k\<close>, tested with the 32-bit \<open>&\<close>.\<close>

type_synonym CollisionLayerType = "32 word"

definition CollisionLayer_NONE :: CollisionLayerType where
  "CollisionLayer_NONE = 0"

definition CollisionLayer_SOLID :: CollisionLayerType where
  "CollisionLayer_SOLID = push_bit 0 1"

definition CollisionLayer_HAZARD :: CollisionLayerType where
  "CollisionLayer_HAZARD = push_bit 1 1"

definition CollisionLayer_INTERACTIVE :: CollisionLayerType where
  "CollisionLayer_INTERACTIVE = push_bit 2 1"

definition CollisionLayer_PORTAL :: CollisionLayerType where
  "CollisionLayer_PORTAL = push_bit 3 1"

definition CollisionLayer_TRIGGER :: CollisionLayerType where
  "CollisionLayer_TRIGGER = push_bit 4 1"

section \<open>Cube mode (\<open>core/physics/modes/CubeMode.ts\<close>)\<close>

text \<open>A mode's \<open>update\<close> mutates the state it is given; the embedding returns the
  mutated state.  The names \<open>s1\<close>, \<open>s2\<close>, ... are the state after each statement of the
  source, in source order.\<close>

definition CubeMode_executeJump :: "PhysicsState \<Rightarrow> PhysicsConfig \<Rightarrow> PhysicsState" where
  "CubeMode_executeJump state config =
     (let direction = (if gravityInverted state then 1 else - 1)
      in state\<lparr>velocity := (velocity state)\<lparr>vec_y := jumpForce config * direction\<rparr>,
               isGrounded := False,
               coyoteTimeRemaining := 0,
               angularVelocity :=
                 (if gravityInverted state then - PHYSICS_CUBE_ROTATION_SPEED
                  else PHYSICS_CUBE_ROTATION_SPEED)\<rparr>)"

definition CubeMode_updateRotation :: "PhysicsState \<Rightarrow> real \<Rightarrow> PhysicsState" where
  "CubeMode_updateRotation state deltaTime =
     (if isGrounded state
      then state\<lparr>rotation := Math_round (rotation state / 90) * 90, angularVelocity := 0\<rparr>
      else (let s1 = state\<lparr>rotation := rotation state + angularVelocity state * deltaTime\<rparr>
            in s1\<lparr>rotation := js_rem (js_rem (rotation s1) 360 + 360) 360\<rparr>))"

text \<open>The body of \<open>update\<close> is a sequence of statements, each under a comment of its
  own in the source.  Each statement is a function from the state before it to the state
  after it, named after its comment, and \<open>CubeMode_update\<close> runs them in source order.\<close>

text \<open>\<open>// Apply gravity\<close>\<close>

definition CubeMode_applyGravity :: "PhysicsState \<Rightarrow> real \<Rightarrow> PhysicsConfig \<Rightarrow> PhysicsState" where
  "CubeMode_applyGravity state deltaTime config =
     (let gravityDirection = (if gravityInverted state then - 1 else 1)
      in state\<lparr>velocity := (velocity state)\<lparr>vec_y :=
           vec_y (velocity state) + gravity config * gravityDirection * deltaTime\<rparr>\<rparr>)"

text \<open>\<open>// Clamp to terminal velocity\<close> (the two branches of the source are the same)\<close>

definition CubeMode_clampVelocity :: "PhysicsState \<Rightarrow> PhysicsConfig \<Rightarrow> PhysicsState" where
  "CubeMode_clampVelocity state config =
     (if gravityInverted state
      then state\<lparr>velocity := (velocity state)\<lparr>vec_y :=
             clamp (vec_y (velocity state))
               (- terminalVelocity config) (terminalVelocity config)\<rparr>\<rparr>
      else state\<lparr>velocity := (velocity state)\<lparr>vec_y :=
             clamp (vec_y (velocity state))
               (- terminalVelocity config) (terminalVelocity config)\<rparr>\<rparr>)"

text \<open>\<open>// Update coyote time\<close>\<close>

definition CubeMode_updateCoyoteTime :: "PhysicsState \<Rightarrow> real \<Rightarrow> PhysicsState" where
  "CubeMode_updateCoyoteTime state deltaTime =
     (if \<not> isGrounded state \<and> coyoteTimeRemaining state > 0
      then state\<lparr>coyoteTimeRemaining := coyoteTimeRemaining state - deltaTime\<rparr>
      else state)"

text \<open>\<open>// Update jump buffer\<close>\<close>

definition CubeMode_updateJumpBuffer :: "PhysicsState \<Rightarrow> real \<Rightarrow> PhysicsState" where
  "CubeMode_updateJumpBuffer state deltaTime =
     (if jumpBuffered state \<and> jumpBufferTimeRemaining state > 0
      then (let s1 = state\<lparr>jumpBufferTimeRemaining :=
                            jumpBufferTimeRemaining state - deltaTime\<rparr>
            in if jumpBufferTimeRemaining s1 \<le> 0 then s1\<lparr>jumpBuffered := False\<rparr> else s1)
      else state)"

text \<open>\<open>// Handle jump input\<close>\<close>

definition CubeMode_handleJumpInput ::
  "PhysicsState \<Rightarrow> InputState \<Rightarrow> PhysicsConfig \<Rightarrow> PhysicsState" where
  "CubeMode_handleJumpInput state input config =
     (let canJump = (isGrounded state \<or> coyoteTimeRemaining state > 0)
      in if jumpPressed input
         then (if canJump then CubeMode_executeJump state config
               else state\<lparr>jumpBuffered := True,
                           jumpBufferTimeRemaining := jumpBuffer config\<rparr>)
         else state)"

text \<open>\<open>// Auto-jump when holding and landing\<close>\<close>

definition CubeMode_autoJump ::
  "PhysicsState \<Rightarrow> InputState \<Rightarrow> PhysicsConfig \<Rightarrow> PhysicsState" where
  "CubeMode_autoJump state input config =
     (if jumpHeld input \<and> isGrounded state \<and> vec_y (velocity state) \<ge> 0
      then CubeMode_executeJump state config else state)"

text \<open>\<open>// Execute buffered jump on landing\<close>\<close>

definition CubeMode_bufferedJump :: "PhysicsState \<Rightarrow> PhysicsConfig \<Rightarrow> PhysicsState" where
  "CubeMode_bufferedJump state config =
     (if isGrounded state \<and> jumpBuffered state \<and> jumpBufferTimeRemaining state > 0
      then (CubeMode_executeJump state config)\<lparr>jumpBuffered := False\<rparr>
      else state)"

text \<open>\<open>// Update position\<close>\<close>

definition CubeMode_updatePosition :: "PhysicsState \<Rightarrow> real \<Rightarrow> PhysicsState" where
  "CubeMode_updatePosition state deltaTime =
     state\<lparr>position := (position state)\<lparr>vec_y :=
       vec_y (position state) + vec_y (velocity state) * deltaTime\<rparr>\<rparr>"

definition CubeMode_update ::
  "PhysicsState \<Rightarrow> InputState \<Rightarrow> real \<Rightarrow> PhysicsConfig \<Rightarrow> PhysicsState" where
  "CubeMode_update state input deltaTime config =
     (if isDead state then state
      else
        (let s1 = CubeMode_applyGravity state deltaTime config;
             s2 = CubeMode_clampVelocity s1 config;
             s3 = CubeMode_updateCoyoteTime s2 deltaTime;
             s4 = CubeMode_updateJumpBuffer s3 deltaTime;
             s5 = CubeMode_handleJumpInput s4 input config;
             s6 = CubeMode_autoJump s5 input config;
             s7 = CubeMode_bufferedJump s6 config;
             s8 = CubeMode_updatePosition s7 deltaTime
         in CubeMode_updateRotation s8 deltaTime))"

definition CubeMode_onEnter :: "PhysicsState \<Rightarrow> PhysicsState" where
  "CubeMode_onEnter state =
     (let s1 = state\<lparr>mode := Cube\<rparr>
      in if isGrounded s1 then s1\<lparr>angularVelocity := 0\<rparr> else s1)"

definition CubeMode_onExit :: "PhysicsState \<Rightarrow> PhysicsState" where
  "CubeMode_onExit state = state"

section \<open>Ship mode (\<open>core/physics/modes/ShipMode.ts\<close>)\<close>

definition ShipMode_updateRotation :: "PhysicsState \<Rightarrow> PhysicsState" where
  "ShipMode_updateRotation state =
     (let maxTilt = 30;
          velocityFactor = vec_y (velocity state) / 400;
          targetRotation0 = clamp (velocityFactor * maxTilt) (- maxTilt) maxTilt;
          targetRotation = (if gravityInverted state then - targetRotation0
                            else targetRotation0);
          rotationSpeed = 10;
          diff = targetRotation - rotation state
      in state\<lparr>rotation := rotation state + diff * min (rotationSpeed * (16 / 1000)) 1\<rparr>)"

definition ShipMode_update ::
  "PhysicsState \<Rightarrow> InputState \<Rightarrow> real \<Rightarrow> PhysicsConfig \<Rightarrow> PhysicsState" where
  "ShipMode_update state input deltaTime config =
     (if isDead state then state
      else
        (let gravityDirection = (if gravityInverted state then - 1 else 1);
             shipGravity = gravity config * PHYSICS_SHIP_GRAVITY_MULTIPLIER;
             s1 = (if jumpHeld input
                   then (let thrustDirection = - gravityDirection
                         in state\<lparr>velocity := (velocity state)\<lparr>vec_y :=
                              vec_y (velocity state)
                                + PHYSICS_SHIP_THRUST_FORCE * thrustDirection * deltaTime\<rparr>\<rparr>)
                   else state\<lparr>velocity := (velocity state)\<lparr>vec_y :=
                          vec_y (velocity state)
                            + shipGravity * gravityDirection * deltaTime\<rparr>\<rparr>);
             shipTerminalVelocity = terminalVelocity config * (8 / 10);
             s2 = s1\<lparr>velocity := (velocity s1)\<lparr>vec_y :=
                    clamp (vec_y (velocity s1))
                      (- shipTerminalVelocity) shipTerminalVelocity\<rparr>\<rparr>;
             s3 = s2\<lparr>position := (position s2)\<lparr>vec_y :=
                    vec_y (position s2) + vec_y (velocity s2) * deltaTime\<rparr>\<rparr>
         in ShipMode_updateRotation s3))"

definition ShipMode_onEnter :: "PhysicsState \<Rightarrow> PhysicsState" where
  "ShipMode_onEnter state =
     state\<lparr>mode := Ship, rotation := 0, angularVelocity := 0, jumpBuffered := False,
            jumpBufferTimeRemaining := 0, coyoteTimeRemaining := 0\<rparr>"

definition ShipMode_onExit :: "PhysicsState \<Rightarrow> PhysicsState" where
  "ShipMode_onExit state = state"

section \<open>Ball mode (\<open>core/physics/modes/BallMode.ts\<close>)\<close>

definition BallMode_flipGravity :: "PhysicsState \<Rightarrow> PhysicsConfig \<Rightarrow> PhysicsState" where
  "BallMode_flipGravity state config =
     (let s1 = state\<lparr>gravityInverted := \<not> gravityInverted state\<rparr>;
          direction = (if gravityInverted s1 then - 1 else 1)
      in s1\<lparr>velocity := (velocity s1)\<lparr>vec_y := jumpForce config * (5 / 10) * direction\<rparr>,
            isGrounded := False\<rparr>)"

definition BallMode_updateRotation :: "PhysicsState \<Rightarrow> real \<Rightarrow> PhysicsState" where
  "BallMode_updateRotation state deltaTime =
     (let horizontalSpeed = (if SPEEDS (speed state) = 0 then SPEEDS Normal
                             else SPEEDS (speed state));
          rotationPerPixel = 360 / (40 * Math_PI);
          rotationAmount = horizontalSpeed * rotationPerPixel * deltaTime;
          rollDirection = (if gravityInverted state then - 1 else 1);
          s1 = state\<lparr>rotation := rotation state + rotationAmount * rollDirection\<rparr>
      in s1\<lparr>rotation := js_rem (js_rem (rotation s1) 360 + 360) 360\<rparr>)"

definition BallMode_update ::
  "PhysicsState \<Rightarrow> InputState \<Rightarrow> real \<Rightarrow> PhysicsConfig \<Rightarrow> PhysicsState" where
  "BallMode_update state input deltaTime config =
     (if isDead state then state
      else
        (let gravityDirection = (if gravityInverted state then - 1 else 1);
             s1 = state\<lparr>velocity := (velocity state)\<lparr>vec_y :=
                    vec_y (velocity state) + gravity config * gravityDirection * deltaTime\<rparr>\<rparr>;
             s2 = s1\<lparr>velocity := (velocity s1)\<lparr>vec_y :=
                    clamp (vec_y (velocity s1))
                      (- terminalVelocity config) (terminalVelocity config)\<rparr>\<rparr>;
             s3 = (if jumpPressed input \<and> isGrounded s2
                   then BallMode_flipGravity s2 config else s2);
             s4 = s3\<lparr>position := (position s3)\<lparr>vec_y :=
                    vec_y (position s3) + vec_y (velocity s3) * deltaTime\<rparr>\<rparr>
         in BallMode_updateRotation s4 deltaTime))"

definition BallMode_onEnter :: "PhysicsState \<Rightarrow> PhysicsState" where
  "BallMode_onEnter state =
     state\<lparr>mode := Ball, angularVelocity := 0, jumpBuffered := False,
            jumpBufferTimeRemaining := 0, coyoteTimeRemaining := 0\<rparr>"

definition BallMode_onExit :: "PhysicsState \<Rightarrow> PhysicsState" where
  "BallMode_onExit state = state"

section \<open>The strategy interface \<open>IPlayerMode\<close>\<close>

text \<open>The three singletons \<open>cubeMode\<close>, \<open>shipMode\<close> and \<open>ballMode\<close> carry no data, so
  the active strategy object is identified by its \<open>name\<close>, and a virtual call is a
  dispatch on it.\<close>

fun IPlayerMode_update ::
  "PlayerModeType \<Rightarrow> PhysicsState \<Rightarrow> InputState \<Rightarrow> real \<Rightarrow> PhysicsConfig \<Rightarrow> PhysicsState"
where
  "IPlayerMode_update Cube = CubeMode_update"
| "IPlayerMode_update Ship = ShipMode_update"
| "IPlayerMode_update Ball = BallMode_update"

fun IPlayerMode_onEnter :: "PlayerModeType \<Rightarrow> PhysicsState \<Rightarrow> PhysicsState" where
  "IPlayerMode_onEnter Cube = CubeMode_onEnter"
| "IPlayerMode_onEnter Ship = ShipMode_onEnter"
| "IPlayerMode_onEnter Ball = BallMode_onEnter"

fun IPlayerMode_onExit :: "PlayerModeType \<Rightarrow> PhysicsState \<Rightarrow> PhysicsState" where
  "IPlayerMode_onExit Cube = CubeMode_onExit"
| "IPlayerMode_onExit Ship = ShipMode_onExit"
| "IPlayerMode_onExit Ball = BallMode_onExit"

section \<open>Collision system (\<open>core/collision/CollisionSystem.ts\<close>)\<close>

record Collidable =
  obj_x :: real
  obj_y :: real
  obj_width :: real
  obj_height :: real
  obj_type :: ObjectTypeType
  collisionLayer :: CollisionLayerType
  active :: bool

record CollisionEvent =
  ev_object :: Collidable
  ev_type :: ObjectTypeType
  collision :: CollisionResult
  isHazard :: bool
  isSolid :: bool
  isInteractive :: bool

fun getHitboxScale :: "ObjectTypeType \<Rightarrow> real" where
  "getHitboxScale spike = HITBOXES_SPIKE"
| "getHitboxScale spikeInverted = HITBOXES_SPIKE"
| "getHitboxScale orbYellow = HITBOXES_ORB"
| "getHitboxScale orbBlue = HITBOXES_ORB"
| "getHitboxScale block = HITBOXES_BLOCK"
| "getHitboxScale _ = 1"

fun getCollisionLayer :: "ObjectTypeType \<Rightarrow> CollisionLayerType" where
  "getCollisionLayer block = CollisionLayer_SOLID"
| "getCollisionLayer spike = CollisionLayer_HAZARD"
| "getCollisionLayer spikeInverted = CollisionLayer_HAZARD"
| "getCollisionLayer padYellow = CollisionLayer_INTERACTIVE"
| "getCollisionLayer padPink = CollisionLayer_INTERACTIVE"
| "getCollisionLayer orbYellow = CollisionLayer_INTERACTIVE"
| "getCollisionLayer orbBlue = CollisionLayer_INTERACTIVE"
| "getCollisionLayer portalGravity = CollisionLayer_PORTAL"
| "getCollisionLayer portalMode = CollisionLayer_PORTAL"
| "getCollisionLayer portalSpeed = CollisionLayer_PORTAL"
| "getCollisionLayer checkpoint = CollisionLayer_TRIGGER"
| "getCollisionLayer decoration = CollisionLayer_NONE"

definition getObjectHitbox :: "Collidable \<Rightarrow> AABB" where
  "getObjectHitbox obj =
     (let scale = getHitboxScale (obj_type obj);
          baseBox = createAABBFromCenter (obj_x obj) (obj_y obj) (obj_width obj) (obj_height obj)
      in scaleAABB baseBox scale)"

definition getPlayerHitbox :: "real \<Rightarrow> real \<Rightarrow> real \<Rightarrow> real \<Rightarrow> bool \<Rightarrow> AABB" where
  "getPlayerHitbox px py w h isCube =
     (let scale = (if isCube then HITBOXES_PLAYER_CUBE else HITBOXES_PLAYER_SHIP);
          baseBox = createAABBFromCenter px py w h
      in scaleAABB baseBox scale)"

text \<open>\<open>checkPlayerObjectCollision\<close> returns an event or \<open>null\<close>: an option.\<close>

definition checkPlayerObjectCollision :: "AABB \<Rightarrow> Collidable \<Rightarrow> CollisionEvent option" where
  "checkPlayerObjectCollision playerHitbox obj =
     (if \<not> active obj \<or> collisionLayer obj = CollisionLayer_NONE then None
      else
        (let objectHitbox = getObjectHitbox obj
         in if \<not> checkAABBOverlap playerHitbox objectHitbox then None
            else
              (let c = getAABBCollision playerHitbox objectHitbox
               in Some \<lparr>ev_object = obj, ev_type = obj_type obj, collision = c,
                         isHazard = (collisionLayer obj AND CollisionLayer_HAZARD \<noteq> 0),
                         isSolid = (collisionLayer obj AND CollisionLayer_SOLID \<noteq> 0),
                         isInteractive =
                           (collisionLayer obj AND CollisionLayer_INTERACTIVE \<noteq> 0)\<rparr>)))"

text \<open>The loop of \<open>checkPlayerCollisions\<close> pushes the events in the order of the objects.\<close>

fun checkPlayerCollisions :: "AABB \<Rightarrow> Collidable list \<Rightarrow> CollisionEvent list" where
  "checkPlayerCollisions playerHitbox [] = []"
| "checkPlayerCollisions playerHitbox (obj # objects) =
     (case checkPlayerObjectCollision playerHitbox obj of
        None \<Rightarrow> checkPlayerCollisions playerHitbox objects
      | Some event \<Rightarrow> event # checkPlayerCollisions playerHitbox objects)"

text \<open>The first loop of \<open>checkGrounded\<close>: does the probe box below the player overlap an
  active solid object?  The loop returns at the first such object.\<close>

fun groundCheckLoop :: "AABB \<Rightarrow> Collidable list \<Rightarrow> bool" where
  "groundCheckLoop groundCheckBox [] = False"
| "groundCheckLoop groundCheckBox (obj # objects) =
     (if \<not> active obj \<or> collisionLayer obj AND CollisionLayer_SOLID = 0
      then groundCheckLoop groundCheckBox objects
      else if checkAABBOverlap groundCheckBox (getObjectHitbox obj) then True
      else groundCheckLoop groundCheckBox objects)"

definition checkGrounded :: "AABB \<Rightarrow> Collidable list \<Rightarrow> real \<Rightarrow> bool" where
  "checkGrounded playerHitbox objects tolerance =
     (let groundCheckBox =
            \<lparr>box_x = box_x playerHitbox + 2,
             box_y = box_y playerHitbox + box_height playerHitbox,
             box_width = box_width playerHitbox - 4,
             box_height = tolerance\<rparr>
      in if groundCheckLoop groundCheckBox objects then True
         else
           (let groundY = GRID_DEFAULT_GROUND_Y * GRID_UNIT_SIZE;
                playerBottom = box_y playerHitbox + box_height playerHitbox
            in if playerBottom \<ge> groundY - tolerance \<and> playerBottom \<le> groundY + tolerance
               then True else False))"

section \<open>The player (\<open>engine/objects/Player.ts\<close>)\<close>

text \<open>
  The fields of \<open>Player\<close> that the physics reads or writes.  The Phaser sprites and the
  method \<open>syncVisuals\<close> only draw and are left out; \<open>emit\<close> appends to the list
  \<open>emitted\<close>.  \<open>currentMode\<close> is the strategy object in use, kept apart from
  \<open>physicsState.mode\<close> as in the class.
\<close>

datatype PlayerEvent =
    Ev_death real real
  | Ev_jump real real
  | Ev_land real real
  | Ev_modeChange PlayerModeType
  | Ev_gravityFlip bool

record Player =
  physicsState :: PhysicsState
  physicsConfig :: PhysicsConfig
  currentMode :: PlayerModeType
  levelObjects :: "Collidable list"
  currentSpeed :: real
  audioTime_ :: real
  startX :: real
  wasGroundedLastFrame :: bool
  wasInAir :: bool
  emitted :: "PlayerEvent list"

definition emit :: "PlayerEvent \<Rightarrow> Player \<Rightarrow> Player" where
  "emit e p = p\<lparr>emitted := emitted p @ [e]\<rparr>"

text \<open>The player that the constructor builds for a start position.\<close>

definition newPlayer :: "real \<Rightarrow> real \<Rightarrow> Player" where
  "newPlayer sx sy =
     \<lparr>physicsState = createDefaultPhysicsState
         \<lparr>position := \<lparr>vec_x = sx, vec_y = sy\<rparr>, isGrounded := True\<rparr>,
      physicsConfig = createDefaultPhysicsConfig,
      currentMode = Cube,
      levelObjects = [],
      currentSpeed = SPEEDS Normal,
      audioTime_ = 0,
      startX = sx,
      wasGroundedLastFrame = True,
      wasInAir = False,
      emitted = []\<rparr>"

definition setLevelObjects :: "Collidable list \<Rightarrow> Player \<Rightarrow> Player" where
  "setLevelObjects objects p = p\<lparr>levelObjects := objects\<rparr>"

definition getHitbox :: "Player \<Rightarrow> AABB" where
  "getHitbox p =
     getPlayerHitbox (vec_x (position (physicsState p))) (vec_y (position (physicsState p)))
       SIZES_PLAYER SIZES_PLAYER (mode (physicsState p) = Cube)"

definition die :: "Player \<Rightarrow> Player" where
  "die p =
     (if isDead (physicsState p) then p
      else
        (let p1 = p\<lparr>physicsState := (physicsState p)\<lparr>isDead := True\<rparr>\<rparr>
         in emit (Ev_death (vec_x (position (physicsState p1)))
                           (vec_y (position (physicsState p1)))) p1))"

text \<open>One iteration of the loop of \<open>processCollisions\<close> for an event that is no hazard:
  the response to a solid with a vertical normal.  Both branches of the source move the
  player by \<open>overlapY * normal.y\<close>; they differ in the sign of the velocity they stop.\<close>

definition solidResponse :: "CollisionEvent \<Rightarrow> Player \<Rightarrow> Player" where
  "solidResponse c p =
     (if isSolid c \<and> vec_y (normal (collision c)) \<noteq> 0
      then
        (let st = physicsState p;
             st1 = st\<lparr>position := (position st)\<lparr>vec_y :=
                     vec_y (position st)
                       - overlapY (collision c) * vec_y (normal (collision c))\<rparr>\<rparr>
         in if vec_y (normal (collision c)) > 0
            then (if vec_y (velocity st1) > 0
                  then p\<lparr>physicsState := st1\<lparr>velocity := (velocity st1)\<lparr>vec_y := 0\<rparr>\<rparr>\<rparr>
                  else p\<lparr>physicsState := st1\<rparr>)
            else (if vec_y (velocity st1) < 0
                  then p\<lparr>physicsState := st1\<lparr>velocity := (velocity st1)\<lparr>vec_y := 0\<rparr>\<rparr>\<rparr>
                  else p\<lparr>physicsState := st1\<rparr>))
      else p)"

text \<open>\<open>processCollisions\<close>: the events in order; a hazard kills and returns from the loop.\<close>

fun processCollisions :: "CollisionEvent list \<Rightarrow> Player \<Rightarrow> Player" where
  "processCollisions [] p = p"
| "processCollisions (c # collisions) p =
     (if isHazard c then die p
      else processCollisions collisions (solidResponse c p))"

definition applyGroundConstraint :: "Player \<Rightarrow> Player" where
  "applyGroundConstraint p =
     (let groundY = GRID_DEFAULT_GROUND_Y * GRID_UNIT_SIZE - SIZES_PLAYER / 2
      in if vec_y (position (physicsState p)) > groundY
         then p\<lparr>physicsState := (physicsState p)
                  \<lparr>position := (position (physicsState p))\<lparr>vec_y := groundY\<rparr>,
                   velocity := (velocity (physicsState p))\<lparr>vec_y := 0\<rparr>,
                   isGrounded := True\<rparr>\<rparr>
         else p)"

definition onLanding :: "Player \<Rightarrow> Player" where
  "onLanding p =
     (let p1 = p\<lparr>physicsState := (physicsState p)
                  \<lparr>rotation := Math_round (rotation (physicsState p) / 90) * 90,
                   angularVelocity := 0\<rparr>\<rparr>
      in emit (Ev_land (vec_x (position (physicsState p1)))
                       (vec_y (position (physicsState p1)) + SIZES_PLAYER / 2)) p1)"

definition onJump :: "Player \<Rightarrow> Player" where
  "onJump p =
     emit (Ev_jump (vec_x (position (physicsState p)))
                   (vec_y (position (physicsState p)) + SIZES_PLAYER / 2)) p"

text \<open>\<open>update\<close>; the optional parameter \<open>audioTime\<close> is an option.  As for the cube,
  each commented statement of the body is a function of its own.\<close>

text \<open>\<open>// Store previous state\<close>\<close>

definition storePreviousState :: "Player \<Rightarrow> Player" where
  "storePreviousState p = p\<lparr>wasInAir := \<not> isGrounded (physicsState p)\<rparr>"

text \<open>\<open>// Update X position based on audio time if provided (music-first loop)\<close>\<close>

definition updateXFromAudioTime :: "real option \<Rightarrow> Player \<Rightarrow> Player" where
  "updateXFromAudioTime audioTime p =
     (case audioTime of
        None \<Rightarrow> p
      | Some t \<Rightarrow>
          p\<lparr>audioTime_ := t,
            physicsState := (physicsState p)
              \<lparr>position := (position (physicsState p))
                 \<lparr>vec_x := startX p + t * currentSpeed p\<rparr>\<rparr>\<rparr>)"

text \<open>\<open>// Update physics through current mode\<close>\<close>

definition updateThroughMode :: "InputState \<Rightarrow> real \<Rightarrow> Player \<Rightarrow> Player" where
  "updateThroughMode input deltaTime p =
     p\<lparr>physicsState :=
         IPlayerMode_update (currentMode p) (physicsState p) input deltaTime (physicsConfig p)\<rparr>"

text \<open>\<open>// Check if grounded\<close>, with the hitbox taken before the collisions were processed\<close>

definition recheckGrounded :: "AABB \<Rightarrow> Player \<Rightarrow> Player" where
  "recheckGrounded hitbox p =
     (let p1 = p\<lparr>wasGroundedLastFrame := isGrounded (physicsState p)\<rparr>
      in p1\<lparr>physicsState := (physicsState p1)
              \<lparr>isGrounded := checkGrounded hitbox (levelObjects p1) 2\<rparr>\<rparr>)"

text \<open>\<open>// Handle landing (was in air, now grounded)\<close>\<close>

definition handleLanding :: "Player \<Rightarrow> Player" where
  "handleLanding p =
     (if wasInAir p \<and> isGrounded (physicsState p) then onLanding p else p)"

text \<open>\<open>// Handle jump (was grounded, now in air)\<close>\<close>

definition handleJump :: "Player \<Rightarrow> Player" where
  "handleJump p =
     (if wasGroundedLastFrame p \<and> \<not> isGrounded (physicsState p)
         \<and> vec_y (velocity (physicsState p)) < 0
      then onJump p else p)"

text \<open>\<open>// Handle leaving ground\<close>\<close>

definition handleLeavingGround :: "Player \<Rightarrow> Player" where
  "handleLeavingGround p =
     (if wasGroundedLastFrame p \<and> \<not> isGrounded (physicsState p)
      then p\<lparr>physicsState := (physicsState p)
              \<lparr>coyoteTimeRemaining := coyoteTime (physicsConfig p)\<rparr>\<rparr>
      else p)"

text \<open>The collision step of the tick: the hitbox after the mode's update, the events of
  \<open>checkPlayerCollisions\<close> against the level objects, and \<open>processCollisions\<close>.\<close>

definition collisionStep :: "Player \<Rightarrow> Player" where
  "collisionStep p =
     processCollisions (checkPlayerCollisions (getHitbox p) (levelObjects p)) p"

text \<open>\<open>updateSteps\<close> is the body of \<open>update\<close> from the statement after the \<open>isDead\<close>
  guard up to the statement before the call of \<open>applyGroundConstraint\<close>.\<close>

definition updateSteps :: "InputState \<Rightarrow> real \<Rightarrow> real option \<Rightarrow> Player \<Rightarrow> Player" where
  "updateSteps input deltaTime audioTime p =
     (let p1 = storePreviousState p;
          p2 = updateXFromAudioTime audioTime p1;
          p3 = updateThroughMode input deltaTime p2;
          hitbox = getHitbox p3;
          p4 = collisionStep p3;
          p5 = recheckGrounded hitbox p4;
          p6 = handleLanding p5;
          p7 = handleJump p6
      in handleLeavingGround p7)"

definition update :: "InputState \<Rightarrow> real \<Rightarrow> real option \<Rightarrow> Player \<Rightarrow> Player" where
  "update input deltaTime audioTime p =
     (if isDead (physicsState p) then p
      else applyGroundConstraint (updateSteps input deltaTime audioTime p))"

text \<open>\<open>applyJumpImpulse\<close> (its second parameter is reserved and never read) and
  \<open>applyBoostImpulse\<close>, called by the scene for pads and orbs.\<close>

definition applyJumpImpulse :: "real \<Rightarrow> Player \<Rightarrow> Player" where
  "applyJumpImpulse force p =
     (if isDead (physicsState p) then p
      else
        (let direction = (if gravityInverted (physicsState p) then 1 else - 1);
             p1 = p\<lparr>physicsState := (physicsState p)
                     \<lparr>velocity := (velocity (physicsState p))\<lparr>vec_y := force * direction\<rparr>,
                      isGrounded := False\<rparr>\<rparr>
         in emit (Ev_jump (vec_x (position (physicsState p1)))
                          (vec_y (position (physicsState p1)))) p1))"

definition applyBoostImpulse :: "real \<Rightarrow> Player \<Rightarrow> Player" where
  "applyBoostImpulse force p =
     (if isDead (physicsState p) then p
      else
        (let direction = (if gravityInverted (physicsState p) then 1 else - 1);
             p1 = p\<lparr>physicsState := (physicsState p)
                     \<lparr>velocity := (velocity (physicsState p))\<lparr>vec_y := force * direction\<rparr>\<rparr>\<rparr>
         in emit (Ev_jump (vec_x (position (physicsState p1)))
                          (vec_y (position (physicsState p1)))) p1))"

definition setSpeed :: "SpeedModeType \<Rightarrow> Player \<Rightarrow> Player" where
  "setSpeed speedMode p =
     p\<lparr>currentSpeed := SPEEDS speedMode,
       physicsState := (physicsState p)\<lparr>speed := speedMode\<rparr>\<rparr>"

text \<open>\<open>setMode\<close>: nothing when the state already has the mode; otherwise the old
  strategy's \<open>onExit\<close>, the new strategy, its \<open>onEnter\<close>, and the \<open>modeChange\<close> event.
  \<open>updateModeVisuals\<close> only draws.\<close>

definition setMode :: "PlayerModeType \<Rightarrow> Player \<Rightarrow> Player" where
  "setMode m p =
     (if mode (physicsState p) = m then p
      else
        (let p1 = p\<lparr>physicsState := IPlayerMode_onExit (currentMode p) (physicsState p)\<rparr>;
             p2 = (case m of
                     Ship \<Rightarrow> p1\<lparr>currentMode := Ship\<rparr>
                   | Ball \<Rightarrow> p1\<lparr>currentMode := Ball\<rparr>
                   | Cube \<Rightarrow> p1\<lparr>currentMode := Cube\<rparr>);
             p3 = p2\<lparr>physicsState := IPlayerMode_onEnter (currentMode p2) (physicsState p2)\<rparr>
         in emit (Ev_modeChange m) p3))"

definition flipGravity :: "Player \<Rightarrow> Player" where
  "flipGravity p =
     (let p1 = p\<lparr>physicsState := (physicsState p)
                  \<lparr>gravityInverted := \<not> gravityInverted (physicsState p)\<rparr>\<rparr>
      in emit (Ev_gravityFlip (gravityInverted (physicsState p1))) p1)"

section \<open>Notions used to state the properties\<close>



text \<open>A run of the game loop: one call of \<open>update\<close> for each tick, a tick being the
  input, the frame's delta time and the music time if there is one.\<close>

fun runTicks :: "(InputState \<times> real \<times> real option) list \<Rightarrow> Player \<Rightarrow> Player" where
  "runTicks [] p = p"
| "runTicks ((input, deltaTime, audioTime) # ticks) p =
     runTicks ticks (update input deltaTime audioTime p)"


text \<open>Two obstacles for the examples: a block whose top edge is 10 pixels below the
  point \<open>(100, 100)\<close>, and a spike centred on that point.\<close>

definition example_block :: Collidable where
  "example_block =
     \<lparr>obj_x = 100, obj_y = 130, obj_width = 40, obj_height = 40, obj_type = block,
      collisionLayer = CollisionLayer_SOLID, active = True\<rparr>"

definition example_spike :: Collidable where
  "example_spike =
     \<lparr>obj_x = 100, obj_y = 100, obj_width = 40, obj_height = 40, obj_type = spike,
      collisionLayer = CollisionLayer_HAZARD, active = True\<rparr>"

text \<open>The player at the start position \<open>(120, 460)\<close> after a mode portal to ship mode.\<close>

definition example_ship_player :: Player where
  "example_ship_player =
     \<lparr>physicsState =
        \<lparr>position = \<lparr>vec_x = 120, vec_y = 460\<rparr>, velocity = \<lparr>vec_x = 0, vec_y = 0\<rparr>,
         isGrounded = True, gravityInverted = False, rotation = 0, angularVelocity = 0,
         coyoteTimeRemaining = 0, jumpBuffered = False, jumpBufferTimeRemaining = 0,
         isDead = False, mode = Ship, speed = Normal\<rparr>,
      physicsConfig = createDefaultPhysicsConfig,
      currentMode = Ship,
      levelObjects = [],
      currentSpeed = SPEEDS Normal,
      audioTime_ = 0,
      startX = 120,
      wasGroundedLastFrame = True,
      wasInAir = False,
      emitted = [Ev_modeChange Ship]\<rparr>"

section \<open>Properties of the geometry primitive\<close>










section \<open>Normalisation and clamping\<close>






section \<open>The modes, statement by statement\<close>

lemma CubeMode_executeJump_fields [simp]:
  "vec_y (velocity (CubeMode_executeJump s c))
     = jumpForce c * (if gravityInverted s then 1 else - 1)"
  "\<not> isGrounded (CubeMode_executeJump s c)"
  "position (CubeMode_executeJump s c) = position s"
  "rotation (CubeMode_executeJump s c) = rotation s"
  by (simp_all add: CubeMode_executeJump_def)

lemma CubeMode_position_x [simp]:
  "vec_x (position (CubeMode_applyGravity s dt c)) = vec_x (position s)"
  "vec_x (position (CubeMode_clampVelocity s c)) = vec_x (position s)"
  "vec_x (position (CubeMode_updateCoyoteTime s dt)) = vec_x (position s)"
  "vec_x (position (CubeMode_updateJumpBuffer s dt)) = vec_x (position s)"
  "vec_x (position (CubeMode_handleJumpInput s i c)) = vec_x (position s)"
  "vec_x (position (CubeMode_autoJump s i c)) = vec_x (position s)"
  "vec_x (position (CubeMode_bufferedJump s c)) = vec_x (position s)"
  "vec_x (position (CubeMode_updatePosition s dt)) = vec_x (position s)"
  "vec_x (position (CubeMode_updateRotation s dt)) = vec_x (position s)"
  by (simp_all add: CubeMode_applyGravity_def CubeMode_clampVelocity_def
      CubeMode_updateCoyoteTime_def CubeMode_updateJumpBuffer_def CubeMode_handleJumpInput_def
      CubeMode_autoJump_def CubeMode_bufferedJump_def CubeMode_updatePosition_def
      CubeMode_updateRotation_def Let_def)

lemma CubeMode_isGrounded_kept [simp]:
  "isGrounded (CubeMode_applyGravity s dt c) = isGrounded s"
  "isGrounded (CubeMode_clampVelocity s c) = isGrounded s"
  "isGrounded (CubeMode_updateCoyoteTime s dt) = isGrounded s"
  "isGrounded (CubeMode_updateJumpBuffer s dt) = isGrounded s"
  "isGrounded (CubeMode_updatePosition s dt) = isGrounded s"
  "isGrounded (CubeMode_updateRotation s dt) = isGrounded s"
  by (simp_all add: CubeMode_applyGravity_def CubeMode_clampVelocity_def
      CubeMode_updateCoyoteTime_def CubeMode_updateJumpBuffer_def CubeMode_updatePosition_def
      CubeMode_updateRotation_def Let_def)

lemma CubeMode_velocity_kept [simp]:
  "velocity (CubeMode_updateCoyoteTime s dt) = velocity s"
  "velocity (CubeMode_updateJumpBuffer s dt) = velocity s"
  "velocity (CubeMode_updatePosition s dt) = velocity s"
  "velocity (CubeMode_updateRotation s dt) = velocity s"
  by (simp_all add: CubeMode_updateCoyoteTime_def CubeMode_updateJumpBuffer_def
      CubeMode_updatePosition_def CubeMode_updateRotation_def Let_def)



lemma CubeMode_update_position_x:
  "vec_x (position (CubeMode_update s i dt c)) = vec_x (position s)"
  by (simp add: CubeMode_update_def Let_def)






lemma ShipMode_update_position_x:
  "vec_x (position (ShipMode_update s i dt c)) = vec_x (position s)"
  by (simp add: ShipMode_update_def Let_def ShipMode_updateRotation_def)

lemma BallMode_update_position_x:
  "vec_x (position (BallMode_update s i dt c)) = vec_x (position s)"
  by (simp add: BallMode_update_def Let_def BallMode_updateRotation_def BallMode_flipGravity_def)

lemma IPlayerMode_update_position_x:
  "vec_x (position (IPlayerMode_update m s i dt c)) = vec_x (position s)"
  by (cases m) (simp_all add: CubeMode_update_position_x ShipMode_update_position_x
      BallMode_update_position_x)






lemma IPlayerMode_update_dead:
  "isDead s \<Longrightarrow> IPlayerMode_update m s i dt c = s"
  by (cases m) (simp_all add: CubeMode_update_def ShipMode_update_def BallMode_update_def)



section \<open>The tick, statement by statement\<close>

lemma emit_fields [simp]:
  "physicsState (emit e p) = physicsState p"
  "currentMode (emit e p) = currentMode p"
  "physicsConfig (emit e p) = physicsConfig p"
  by (simp_all add: emit_def)

lemma die_fields [simp]:
  "isDead (physicsState (die p))"
  "position (physicsState (die p)) = position (physicsState p)"
  "velocity (physicsState (die p)) = velocity (physicsState p)"
  "currentMode (die p) = currentMode p"
  "physicsConfig (die p) = physicsConfig p"
  by (simp_all add: die_def Let_def)

lemma solidResponse_fields [simp]:
  "vec_x (position (physicsState (solidResponse c p))) = vec_x (position (physicsState p))"
  "currentMode (solidResponse c p) = currentMode p"
  "physicsConfig (solidResponse c p) = physicsConfig p"
  by (simp_all add: solidResponse_def Let_def)



lemma processCollisions_fields [simp]:
  "vec_x (position (physicsState (processCollisions cs p))) = vec_x (position (physicsState p))"
  "currentMode (processCollisions cs p) = currentMode p"
  "physicsConfig (processCollisions cs p) = physicsConfig p"
  by (induction cs arbitrary: p) simp_all


lemma step_currentMode [simp]:
  "currentMode (storePreviousState p) = currentMode p"
  "currentMode (updateXFromAudioTime a p) = currentMode p"
  "currentMode (updateThroughMode i dt p) = currentMode p"
  "currentMode (collisionStep p) = currentMode p"
  "currentMode (recheckGrounded hb p) = currentMode p"
  "currentMode (handleLanding p) = currentMode p"
  "currentMode (handleJump p) = currentMode p"
  "currentMode (handleLeavingGround p) = currentMode p"
  "currentMode (applyGroundConstraint p) = currentMode p"
  by (simp_all add: storePreviousState_def updateXFromAudioTime_def updateThroughMode_def
      collisionStep_def recheckGrounded_def handleLanding_def handleJump_def
      handleLeavingGround_def applyGroundConstraint_def onLanding_def onJump_def Let_def
      split: option.split)

lemma step_physicsConfig [simp]:
  "physicsConfig (storePreviousState p) = physicsConfig p"
  "physicsConfig (updateXFromAudioTime a p) = physicsConfig p"
  "physicsConfig (updateThroughMode i dt p) = physicsConfig p"
  "physicsConfig (collisionStep p) = physicsConfig p"
  "physicsConfig (recheckGrounded hb p) = physicsConfig p"
  "physicsConfig (handleLanding p) = physicsConfig p"
  "physicsConfig (handleJump p) = physicsConfig p"
  "physicsConfig (handleLeavingGround p) = physicsConfig p"
  "physicsConfig (applyGroundConstraint p) = physicsConfig p"
  by (simp_all add: storePreviousState_def updateXFromAudioTime_def updateThroughMode_def
      collisionStep_def recheckGrounded_def handleLanding_def handleJump_def
      handleLeavingGround_def applyGroundConstraint_def onLanding_def onJump_def Let_def
      split: option.split)

lemma step_position_x [simp]:
  "vec_x (position (physicsState (updateThroughMode i dt p))) = vec_x (position (physicsState p))"
  "vec_x (position (physicsState (collisionStep p))) = vec_x (position (physicsState p))"
  "vec_x (position (physicsState (recheckGrounded hb p))) = vec_x (position (physicsState p))"
  "vec_x (position (physicsState (handleLanding p))) = vec_x (position (physicsState p))"
  "vec_x (position (physicsState (handleJump p))) = vec_x (position (physicsState p))"
  "vec_x (position (physicsState (handleLeavingGround p))) = vec_x (position (physicsState p))"
  "vec_x (position (physicsState (applyGroundConstraint p))) = vec_x (position (physicsState p))"
  by (simp_all add: updateThroughMode_def IPlayerMode_update_position_x
      collisionStep_def recheckGrounded_def handleLanding_def handleJump_def
      handleLeavingGround_def applyGroundConstraint_def onLanding_def onJump_def Let_def)

lemma step_velocity [simp]:
  "velocity (physicsState (recheckGrounded hb p)) = velocity (physicsState p)"
  "velocity (physicsState (handleLanding p)) = velocity (physicsState p)"
  "velocity (physicsState (handleJump p)) = velocity (physicsState p)"
  "velocity (physicsState (handleLeavingGround p)) = velocity (physicsState p)"
  by (simp_all add: recheckGrounded_def handleLanding_def handleJump_def
      handleLeavingGround_def onLanding_def onJump_def Let_def)

lemma storePreviousState_fields [simp]:
  "physicsState (storePreviousState p) = physicsState p"
  "startX (storePreviousState p) = startX p"
  "currentSpeed (storePreviousState p) = currentSpeed p"
  by (simp_all add: storePreviousState_def)

lemma updateXFromAudioTime_fields [simp]:
  "vec_x (position (physicsState (updateXFromAudioTime (Some t) p))) = startX p + t * currentSpeed p"
  "updateXFromAudioTime None p = p"
  "isDead (physicsState (updateXFromAudioTime a p)) = isDead (physicsState p)"
  by (simp_all add: updateXFromAudioTime_def split: option.split)



lemma update_fields [simp]:
  "currentMode (update i dt a p) = currentMode p"
  "physicsConfig (update i dt a p) = physicsConfig p"
  by (simp_all add: update_def updateSteps_def Let_def)



lemma runTicks_physicsConfig [simp]:
  "physicsConfig (runTicks ticks p) = physicsConfig p"
  by (induction ticks p rule: runTicks.induct) simp_all



section \<open>Collision events of a tick\<close>








section \<open>Evaluating the model on concrete inputs\<close>

text \<open>All the definitions of the model.  With the weak congruence rule for \<open>let\<close> the
  simplifier evaluates a bound term before it enters the body, so a concrete call is
  evaluated innermost first.\<close>

lemmas eval_defs =
  PHYSICS_SHIP_GRAVITY_MULTIPLIER_def PHYSICS_SHIP_THRUST_FORCE_def
  PHYSICS_CUBE_ROTATION_SPEED_def GRID_UNIT_SIZE_def GRID_DEFAULT_GROUND_Y_def
  HITBOXES_PLAYER_CUBE_def HITBOXES_PLAYER_SHIP_def HITBOXES_SPIKE_def HITBOXES_ORB_def
  HITBOXES_BLOCK_def SIZES_PLAYER_def CollisionLayer_NONE_def CollisionLayer_SOLID_def
  CollisionLayer_HAZARD_def CollisionLayer_INTERACTIVE_def
  createDefaultPhysicsState_def createDefaultPhysicsConfig_def createDefaultInputState_def
  update_def updateSteps_def updateThroughMode_def collisionStep_def
  CubeMode_update_def ShipMode_update_def BallMode_update_def
  setMode_def setLevelObjects_def Let_def
  newPlayer_def storePreviousState_def
  updateXFromAudioTime_def recheckGrounded_def
  handleLanding_def handleJump_def handleLeavingGround_def applyGroundConstraint_def
  onLanding_def onJump_def emit_def die_def getHitbox_def getPlayerHitbox_def
  createAABBFromCenter_def scaleAABB_def checkGrounded_def
  applyJumpImpulse_def applyBoostImpulse_def
  CubeMode_applyGravity_def CubeMode_clampVelocity_def
  CubeMode_updateCoyoteTime_def CubeMode_updateJumpBuffer_def CubeMode_handleJumpInput_def
  CubeMode_autoJump_def CubeMode_bufferedJump_def CubeMode_updatePosition_def
  CubeMode_updateRotation_def CubeMode_executeJump_def CubeMode_onEnter_def CubeMode_onExit_def
  ShipMode_updateRotation_def ShipMode_onEnter_def ShipMode_onExit_def
  BallMode_updateRotation_def BallMode_onEnter_def BallMode_onExit_def BallMode_flipGravity_def
  clamp_def Math_round_def Math_trunc_def js_rem_def Math_PI_def
  getObjectHitbox_def checkPlayerObjectCollision_def checkAABBOverlap_def getAABBCollision_def
  solidResponse_def example_block_def example_spike_def


lemma getHitbox_setLevelObjects [simp]:
  "getHitbox (setLevelObjects objs p) = getHitbox p"
  by (simp add: getHitbox_def setLevelObjects_def)

lemma setMode_other_mode:
  "mode (physicsState p) \<noteq> m \<Longrightarrow>
     setMode m p =
       emit (Ev_modeChange m)
         (p\<lparr>currentMode := m,
            physicsState :=
              IPlayerMode_onEnter m (IPlayerMode_onExit (currentMode p) (physicsState p))\<rparr>)"
  by (cases m) (simp_all add: setMode_def Let_def)

text \<open>The ship at the start position, one tick without input: the ship's smaller hitbox
  ends above the band of the default ground, so the tick arms the coyote timer, and the
  ground constraint puts the player back on the ground.\<close>

lemma ship_player:
  "setMode Ship (newPlayer 120 460) = example_ship_player"
  by (simp add: example_ship_player_def eval_defs cong: let_weak_cong)

lemma ship_tick:
  "update createDefaultInputState (1 / 60) (Some 0) example_ship_player
     = example_ship_player
         \<lparr>physicsState := (physicsState example_ship_player)
            \<lparr>rotation := 26 / 125, coyoteTimeRemaining := 2 / 25\<rparr>\<rparr>"
  by (simp add: example_ship_player_def eval_defs cong: let_weak_cong)

section \<open>The claims\<close>







text \<open>The config matters too: with a jump force of 2000 and a terminal velocity of 1200,
  a jump of the cube leaves \<open>velocity.y = -2000\<close>.\<close>

lemma jump_force_above_terminal_velocity:
  "vec_y (velocity (CubeMode_update
      (createDefaultPhysicsState\<lparr>isGrounded := True\<rparr>)
      (createDefaultInputState\<lparr>jumpPressed := True\<rparr>) (1 / 60)
      (createDefaultPhysicsConfig\<lparr>jumpForce := 2000\<rparr>))) = - 2000"
  by (simp add: eval_defs cong: let_weak_cong)




text \<open>The grounded cube at rotation 350 snaps to 360.\<close>

lemma grounded_cube_snaps_to_360:
  "rotation (IPlayerMode_update Cube
      (createDefaultPhysicsState\<lparr>isGrounded := True, rotation := 350\<rparr>)
      createDefaultInputState (1 / 60) createDefaultPhysicsConfig) = 360"
  by (simp add: eval_defs cong: let_weak_cong)

text \<open>
  C4, as the code has it.  A mode switch to a mode other than the one in the state calls
  the old strategy's \<open>onExit\<close>, installs the new strategy, calls its \<open>onEnter\<close> and emits
  \<open>modeChange\<close>.  Each \<open>onEnter\<close> sets \<open>state.mode\<close> to its own mode.  The ship's and the
  ball's \<open>onEnter\<close> clear \<open>jumpBuffered\<close>, \<open>jumpBufferTimeRemaining\<close> and
  \<open>coyoteTimeRemaining\<close>; the cube's \<open>onEnter\<close> leaves the three as they are.
\<close>

theorem C4_mode_switch:
  assumes "mode (physicsState p) \<noteq> m"
  shows "setMode m p =
           emit (Ev_modeChange m)
             (p\<lparr>currentMode := m,
                physicsState :=
                  IPlayerMode_onEnter m (IPlayerMode_onExit (currentMode p) (physicsState p))\<rparr>)
       \<and> mode (IPlayerMode_onEnter m s) = m
       \<and> (m \<noteq> Cube \<longrightarrow>
            \<not> jumpBuffered (IPlayerMode_onEnter m s)
            \<and> jumpBufferTimeRemaining (IPlayerMode_onEnter m s) = 0
            \<and> coyoteTimeRemaining (IPlayerMode_onEnter m s) = 0)
       \<and> jumpBuffered (IPlayerMode_onEnter Cube s) = jumpBuffered s
       \<and> jumpBufferTimeRemaining (IPlayerMode_onEnter Cube s) = jumpBufferTimeRemaining s
       \<and> coyoteTimeRemaining (IPlayerMode_onEnter Cube s) = coyoteTimeRemaining s"
  using setMode_other_mode [OF assms]
  by (cases m)
     (simp_all add: CubeMode_onEnter_def ShipMode_onEnter_def BallMode_onEnter_def Let_def)

theorem C4_witness:
  "mode (physicsState (newPlayer 120 460)) \<noteq> Ship
   \<and> currentMode (setMode Ship (newPlayer 120 460)) = Ship
   \<and> mode (physicsState (setMode Ship (newPlayer 120 460))) = Ship
   \<and> emitted (setMode Ship (newPlayer 120 460)) = [Ev_modeChange Ship]
   \<and> coyoteTimeRemaining (IPlayerMode_onEnter Ship
        (createDefaultPhysicsState\<lparr>coyoteTimeRemaining := 2 / 25\<rparr>)) = 0"
proof -
  have m: "mode (physicsState (newPlayer 120 460)) \<noteq> Ship"
    by (simp add: newPlayer_def createDefaultPhysicsState_def)
  from C4_mode_switch [OF m, of "createDefaultPhysicsState\<lparr>coyoteTimeRemaining := 2 / 25\<rparr>"] m
  show ?thesis
    by (simp add: emit_def newPlayer_def ShipMode_onEnter_def CubeMode_onExit_def)
qed

text \<open>The ship after that tick, with the coyote timer armed, goes through a
  portal back to cube mode: the timer is still 0.08 after the cube's \<open>onEnter\<close>.\<close>

theorem C4_cube_onEnter_keeps_timers:
  "mode (physicsState (setMode Cube
      (update createDefaultInputState (1 / 60) (Some 0) (setMode Ship (newPlayer 120 460)))))
     = Cube
   \<and> coyoteTimeRemaining (physicsState (setMode Cube
      (update createDefaultInputState (1 / 60) (Some 0) (setMode Ship (newPlayer 120 460)))))
     = 2 / 25"
  apply (simp only: ship_player ship_tick)
  apply (simp add: example_ship_player_def eval_defs cong: let_weak_cong)
  done

text \<open>
  C5.  Scenario A: from a live state at rest (\<open>velocity.y = 0\<close>), grounded, with gravity
  not inverted, one update of the cube with the default config, \<open>deltaTime = 1/60\<close>,
  \<open>jumpPressed\<close> and not \<open>jumpHeld\<close> gives \<open>velocity.y = -800\<close> and \<open>isGrounded = false\<close>.
\<close>

theorem C5_scenario_A:
  assumes "vec_y (velocity s) = 0" "isGrounded s" "\<not> gravityInverted s" "\<not> isDead s"
    and "jumpPressed i" "\<not> jumpHeld i"
  shows "vec_y (velocity (CubeMode_update s i (1 / 60) createDefaultPhysicsConfig)) = - 800
       \<and> \<not> isGrounded (CubeMode_update s i (1 / 60) createDefaultPhysicsConfig)"
proof -
  let ?c = createDefaultPhysicsConfig
  let ?s4 = "CubeMode_updateJumpBuffer (CubeMode_updateCoyoteTime
       (CubeMode_clampVelocity (CubeMode_applyGravity s (1 / 60) ?c) ?c) (1 / 60)) (1 / 60)"
  have g4: "isGrounded ?s4" using assms(2) by simp
  have inv4: "\<not> gravityInverted ?s4" using assms(3)
    by (simp add: CubeMode_applyGravity_def CubeMode_clampVelocity_def
      CubeMode_updateCoyoteTime_def CubeMode_updateJumpBuffer_def Let_def)
  have s5: "CubeMode_handleJumpInput ?s4 i ?c = CubeMode_executeJump ?s4 ?c"
    using g4 assms(5) by (simp add: CubeMode_handleJumpInput_def Let_def)
  have s6: "CubeMode_autoJump (CubeMode_executeJump ?s4 ?c) i ?c = CubeMode_executeJump ?s4 ?c"
    using assms(6) by (simp add: CubeMode_autoJump_def)
  have s7: "CubeMode_bufferedJump (CubeMode_executeJump ?s4 ?c) ?c = CubeMode_executeJump ?s4 ?c"
    by (simp add: CubeMode_bufferedJump_def)
  have eq: "CubeMode_update s i (1 / 60) ?c
      = CubeMode_updateRotation (CubeMode_updatePosition (CubeMode_executeJump ?s4 ?c) (1 / 60)) (1 / 60)"
    using assms(4) by (simp add: CubeMode_update_def Let_def s5 s6 s7)
  show ?thesis unfolding eq using inv4 by (simp add: createDefaultPhysicsConfig_def)
qed

text \<open>The state of the unit tests of the cube.\<close>

theorem C5_witness:
  "vec_y (velocity (createDefaultPhysicsState
      \<lparr>position := \<lparr>vec_x = 100, vec_y = 400\<rparr>, isGrounded := True\<rparr>)) = 0
   \<and> isGrounded (createDefaultPhysicsState
      \<lparr>position := \<lparr>vec_x = 100, vec_y = 400\<rparr>, isGrounded := True\<rparr>)
   \<and> \<not> gravityInverted (createDefaultPhysicsState
      \<lparr>position := \<lparr>vec_x = 100, vec_y = 400\<rparr>, isGrounded := True\<rparr>)
   \<and> \<not> isDead (createDefaultPhysicsState
      \<lparr>position := \<lparr>vec_x = 100, vec_y = 400\<rparr>, isGrounded := True\<rparr>)
   \<and> vec_y (velocity (CubeMode_update
       (createDefaultPhysicsState
          \<lparr>position := \<lparr>vec_x = 100, vec_y = 400\<rparr>, isGrounded := True\<rparr>)
       (createDefaultInputState\<lparr>jumpPressed := True\<rparr>) (1 / 60)
       createDefaultPhysicsConfig)) = - 800
   \<and> \<not> isGrounded (CubeMode_update
       (createDefaultPhysicsState
          \<lparr>position := \<lparr>vec_x = 100, vec_y = 400\<rparr>, isGrounded := True\<rparr>)
       (createDefaultInputState\<lparr>jumpPressed := True\<rparr>) (1 / 60)
       createDefaultPhysicsConfig)"
  using C5_scenario_A
    [of "createDefaultPhysicsState
           \<lparr>position := \<lparr>vec_x = 100, vec_y = 400\<rparr>, isGrounded := True\<rparr>"
        "createDefaultInputState\<lparr>jumpPressed := True\<rparr>"]
  by (simp add: createDefaultPhysicsState_def createDefaultInputState_def)

text \<open>
  C7, as the code has it.  For every tick of a player that is not dead in which a music
  time is supplied, the horizontal position after the whole of \<open>update\<close> is
  \<open>startX + audioTime * currentSpeed\<close>; without a music time \<open>update\<close> leaves \<open>position.x\<close>
  as it was, so no other statement of the tick writes it.  (On a dead player \<open>update\<close>
  returns at once and the position is not recomputed.)
\<close>

theorem C7_horizontal_position_from_music_time:
  assumes "\<not> isDead (physicsState p)"
  shows "vec_x (position (physicsState (update i dt (Some t) p)))
           = startX p + t * currentSpeed p
       \<and> vec_x (position (physicsState (update i dt None p)))
           = vec_x (position (physicsState p))"
  using assms by (simp add: update_def updateSteps_def Let_def)

theorem C7_witness:
  "\<not> isDead (physicsState (newPlayer 120 460))
   \<and> vec_x (position (physicsState
       (update (createDefaultInputState\<lparr>jumpPressed := True\<rparr>) (1 / 60) (Some 2)
          (newPlayer 120 460)))) = 120 + 2 * (31158 / 100)
   \<and> vec_x (position (physicsState
       (update (createDefaultInputState\<lparr>jumpPressed := True\<rparr>) (1 / 60) None
          (newPlayer 120 460)))) = 120"
proof -
  have live: "\<not> isDead (physicsState (newPlayer 120 460))"
    by (simp add: newPlayer_def createDefaultPhysicsState_def)
  from C7_horizontal_position_from_music_time
         [OF live, of "createDefaultInputState\<lparr>jumpPressed := True\<rparr>" "1 / 60" 2] live
  show ?thesis by (simp add: newPlayer_def)
qed

text \<open>A dead player, a tick with music time 1: \<open>position.x\<close> stays 120, and
  \<open>startX + audioTime * currentSpeed\<close> is 431.58.\<close>

theorem C7_dead_player_keeps_x:
  "vec_x (position (physicsState
      (update createDefaultInputState (1 / 60) (Some 1) (die (newPlayer 120 460))))) = 120
   \<and> startX (die (newPlayer 120 460)) + 1 * currentSpeed (die (newPlayer 120 460))
       = 43158 / 100"
  by (simp add: update_def die_def emit_def Let_def newPlayer_def createDefaultPhysicsState_def)

text \<open>
  C8.  On a state with \<open>isDead = true\<close>, \<open>update\<close> of the player, with any input, delta
  time, music time and obstacle list, and the \<open>update\<close> of each of the three modes leave
  the whole physics state as it is.
\<close>

theorem C8_dead_update_is_noop:
  assumes "isDead (physicsState p)"
  shows "physicsState (update input deltaTime audioTime (setLevelObjects objs p))
           = physicsState p
       \<and> IPlayerMode_update m (physicsState p) input deltaTime config = physicsState p"
  using assms by (simp add: update_def setLevelObjects_def IPlayerMode_update_dead)

theorem C8_witness:
  "isDead (physicsState (die (newPlayer 120 460)))
   \<and> physicsState (update (createDefaultInputState\<lparr>jumpPressed := True\<rparr>) (1 / 60) (Some 3)
        (setLevelObjects [example_block, example_spike] (die (newPlayer 120 460))))
       = physicsState (die (newPlayer 120 460))
   \<and> IPlayerMode_update Ball (physicsState (die (newPlayer 120 460)))
        (createDefaultInputState\<lparr>jumpPressed := True\<rparr>) (1 / 60) createDefaultPhysicsConfig
       = physicsState (die (newPlayer 120 460))"
proof -
  have d: "isDead (physicsState (die (newPlayer 120 460)))" by simp
  from C8_dead_update_is_noop [OF d] d show ?thesis by blast
qed

text \<open>
  C10.  After \<open>update\<close> on a player that is not dead, \<open>position.y\<close> is at most
  \<open>DEFAULT_GROUND_Y * UNIT_SIZE - PLAYER / 2\<close>; and when the tick clamps, that is when the
  position before \<open>applyGroundConstraint\<close> is below that line, the position is on the line,
  \<open>velocity.y\<close> is 0 and \<open>isGrounded\<close> is true.
\<close>

theorem C10_ground_constraint:
  assumes "\<not> isDead (physicsState p)"
  shows "vec_y (position (physicsState (update i dt a p)))
           \<le> GRID_DEFAULT_GROUND_Y * GRID_UNIT_SIZE - SIZES_PLAYER / 2
       \<and> (vec_y (position (physicsState (updateSteps i dt a p)))
             > GRID_DEFAULT_GROUND_Y * GRID_UNIT_SIZE - SIZES_PLAYER / 2 \<longrightarrow>
           vec_y (position (physicsState (update i dt a p)))
             = GRID_DEFAULT_GROUND_Y * GRID_UNIT_SIZE - SIZES_PLAYER / 2
           \<and> vec_y (velocity (physicsState (update i dt a p))) = 0
           \<and> isGrounded (physicsState (update i dt a p)))"
  using assms by (simp add: update_def applyGroundConstraint_def Let_def)

text \<open>The player at the start position, one tick without input: gravity takes the cube
  to \<open>y = 8293/18\<close>, below the line at 460, and the constraint puts it back.\<close>

theorem C10_witness:
  "\<not> isDead (physicsState (newPlayer 120 460))
   \<and> GRID_DEFAULT_GROUND_Y * GRID_UNIT_SIZE - SIZES_PLAYER / 2 = 460
   \<and> vec_y (position (physicsState
       (updateSteps createDefaultInputState (1 / 60) (Some 0) (newPlayer 120 460)))) = 8293 / 18
   \<and> vec_y (position (physicsState
       (update createDefaultInputState (1 / 60) (Some 0) (newPlayer 120 460)))) = 460
   \<and> vec_y (velocity (physicsState
       (update createDefaultInputState (1 / 60) (Some 0) (newPlayer 120 460)))) = 0
   \<and> isGrounded (physicsState
       (update createDefaultInputState (1 / 60) (Some 0) (newPlayer 120 460)))"
proof -
  have live: "\<not> isDead (physicsState (newPlayer 120 460))"
    by (simp add: newPlayer_def createDefaultPhysicsState_def)
  have g: "GRID_DEFAULT_GROUND_Y * GRID_UNIT_SIZE - SIZES_PLAYER / 2 = 460"
    by (simp add: eval_defs)
  have y: "vec_y (position (physicsState
       (updateSteps createDefaultInputState (1 / 60) (Some 0) (newPlayer 120 460)))) = 8293 / 18"
    by (simp add: eval_defs cong: let_weak_cong)
  from C10_ground_constraint [OF live, of createDefaultInputState "1 / 60" "Some 0"] live
  show ?thesis unfolding g y by simp
qed

end
